theory Spec2Isabelle
  imports Complex_Main
begin

text \<open>
  A shallow embedding of the repair shop application: the ticket form's default values,
  the customer form page with its error handler, the insert validators derived from the
  two tables, and the migration runner. Code of the repository is translated function by
  function and keeps its names. The schema validation library, the schema derivation and
  the JavaScript built-ins are not part of the repository; they are modelled by their
  documented behaviour, and each such definition says so.
\<close>

section \<open>JavaScript values\<close>

text \<open>
  A number is \<open>NaN\<close>, one of the two infinities, negative zero, or another finite
  value; a finite value is kept as a rational, which covers every double.
  A string is the list of its code units, here the 8-bit ones. \<open>JDate None\<close> is a
  \<open>Date\<close> object holding an invalid time, \<open>JOther\<close> any other non-primitive value.
\<close>

datatype js_number = NaN | PosInfinity | NegInfinity | NegZero | Finite rat

datatype js_value =
    JUndefined
  | JNull
  | JBool bool
  | JNumber js_number
  | JString string
  | JDate "int option"
  | JOther

text \<open>An object is read through its properties; a missing property reads \<open>undefined\<close>.\<close>

type_synonym js_object = "string \<Rightarrow> js_value"

definition empty_object :: js_object where
  "empty_object = (\<lambda>k. JUndefined)"

text \<open>A thrown value: an instance of \<open>Error\<close> (with its message) or anything else.\<close>

datatype js_exn = ErrorInstance string | ThrownValue js_value

fun instanceof_Error :: "js_exn \<Rightarrow> bool" where
  "instanceof_Error (ErrorInstance m) = True"
| "instanceof_Error (ThrownValue v) = False"

text \<open>
  The operators \<open>a ?? b\<close> and \<open>obj?.key\<close>: the first falls back to \<open>b\<close> exactly
  when \<open>a\<close> is \<open>undefined\<close> or \<open>null\<close>; the second reads \<open>undefined\<close> when the
  object itself is missing.
\<close>

definition nullish :: "js_value \<Rightarrow> bool" where
  "nullish v = (v = JUndefined \<or> v = JNull)"

definition nullish_coalesce :: "js_value \<Rightarrow> js_value \<Rightarrow> js_value" where
  "nullish_coalesce v d = (if nullish v then d else v)"

definition optional_get :: "js_object option \<Rightarrow> string \<Rightarrow> js_value" where
  "optional_get obj key = (case obj of None \<Rightarrow> JUndefined | Some ob \<Rightarrow> ob key)"

text \<open>
  Truthiness of a \<open>string | undefined\<close>: \<open>undefined\<close> and the empty string are falsy.
\<close>

fun truthy :: "string option \<Rightarrow> bool" where
  "truthy None = False"
| "truthy (Some s) = (s \<noteq> [])"

text \<open>
  The double nearest to an integer: an integer below \<open>2^53\<close> in magnitude is a double
  already; a larger one keeps its 53 leading bits, rounded to nearest with ties to even,
  and becomes an infinity when the rounded value reaches \<open>2^1024\<close>.
\<close>

fun bit_length :: "nat \<Rightarrow> nat" where
  "bit_length n = (if n = 0 then 0 else Suc (bit_length (n div 2)))"

definition to_double :: "int \<Rightarrow> js_number" where
  "to_double i =
     (let n = nat \<bar>i\<bar>
      in if n < 2 ^ 53 then Finite (of_int i)
         else
           (let e = bit_length n - 53;
                q = n div 2 ^ e;
                r = n mod 2 ^ e;
                half = 2 ^ (e - 1);
                m = (if half < r \<or> (r = half \<and> odd q) then q + 1 else q);
                v = m * 2 ^ e
            in if 2 ^ 1024 \<le> v then (if i < 0 then NegInfinity else PosInfinity)
               else Finite (of_int (sgn i * int v))))"

text \<open>
  \<open>parseInt\<close> with no radix argument: leading white space is skipped, a sign is read,
  a \<open>0x\<close> prefix switches to base 16, and the longest run of digits is converted;
  no digit at all gives \<open>NaN\<close>. The result is the double nearest to the integer read,
  and negative zero when a minus sign is followed by zero.
  (Past the twentieth decimal digit the language lets an engine read the remaining digits
  as zeros; the model rounds the exact integer.)
\<close>

definition white_space :: "char \<Rightarrow> bool" where
  "white_space c =
     (c \<in> set [CHR 0x09, CHR 0x0A, CHR 0x0B, CHR 0x0C, CHR 0x0D, CHR 0x20, CHR 0xA0])"

definition digit_value :: "char \<Rightarrow> nat" where
  "digit_value c =
     (let n = (of_char c :: nat)
      in if 48 \<le> n \<and> n \<le> 57 then n - 48
         else if 97 \<le> n \<and> n \<le> 122 then n - 87
         else if 65 \<le> n \<and> n \<le> 90 then n - 55
         else 36)"

definition parseInt :: "string \<Rightarrow> js_number" where
  "parseInt input =
     (let S = dropWhile white_space input;
          sign = (if take 1 S = ''-'' then - 1 else 1 :: int);
          S1 = (if take 1 S = ''+'' \<or> take 1 S = ''-'' then drop 1 S else S);
          hex = (take 2 S1 = ''0x'' \<or> take 2 S1 = ''0X'');
          R = (if hex then 16 else 10);
          S2 = (if hex then drop 2 S1 else S1);
          Z = takeWhile (\<lambda>c. digit_value c < R) S2;
          mathInt = foldl (\<lambda>a c. a * R + digit_value c) 0 Z
      in if Z = [] then NaN
         else if mathInt = 0 \<and> sign = - 1 then NegZero
         else to_double (sign * int mathInt))"

section \<open>Regular expressions\<close>

text \<open>
  The patterns of the source are regular expressions over character classes. A pattern
  written between \<open>^\<close> and \<open>$\<close> is matched against the whole string; matching is by
  derivatives, so \<open>matches\<close> evaluates on any concrete string.
\<close>

datatype rexp =
    Nothing
  | Empty
  | Sym "char \<Rightarrow> bool"
  | Alt rexp rexp
  | Seq rexp rexp
  | Star rexp

fun nullable :: "rexp \<Rightarrow> bool" where
  "nullable Nothing = False"
| "nullable Empty = True"
| "nullable (Sym p) = False"
| "nullable (Alt r s) = (nullable r \<or> nullable s)"
| "nullable (Seq r s) = (nullable r \<and> nullable s)"
| "nullable (Star r) = True"

fun deriv :: "char \<Rightarrow> rexp \<Rightarrow> rexp" where
  "deriv c Nothing = Nothing"
| "deriv c Empty = Nothing"
| "deriv c (Sym p) = (if p c then Empty else Nothing)"
| "deriv c (Alt r s) = Alt (deriv c r) (deriv c s)"
| "deriv c (Seq r s) =
     (if nullable r then Alt (Seq (deriv c r) s) (deriv c s) else Seq (deriv c r) s)"
| "deriv c (Star r) = Seq (deriv c r) (Star r)"

fun matches :: "rexp \<Rightarrow> string \<Rightarrow> bool" where
  "matches r [] = nullable r"
| "matches r (c # cs) = matches (deriv c r) cs"

text \<open>A literal character, \<open>r?\<close>, \<open>r{n}\<close> and \<open>r{n,}\<close>.\<close>

definition Lit :: "char \<Rightarrow> rexp" where
  "Lit c = Sym (\<lambda>x. x = c)"

definition Opt :: "rexp \<Rightarrow> rexp" where
  "Opt r = Alt r Empty"

fun Rep :: "nat \<Rightarrow> rexp \<Rightarrow> rexp" where
  "Rep 0 r = Empty"
| "Rep (Suc n) r = Seq r (Rep n r)"

definition AtLeast :: "nat \<Rightarrow> rexp \<Rightarrow> rexp" where
  "AtLeast n r = Seq (Rep n r) (Star r)"

text \<open>
  The classes \<open>\d\<close> and, under the flag \<open>i\<close>, \<open>[A-Z]\<close>; and the characters that
  \<open>.\<close> does not match.
\<close>

definition digit :: "char \<Rightarrow> bool" where
  "digit c = (c \<in> set ''0123456789'')"

definition letter :: "char \<Rightarrow> bool" where
  "letter c = (c \<in> set ''ABCDEFGHIJKLMNOPQRSTUVWXYZabcdefghijklmnopqrstuvwxyz'')"

definition line_terminator :: "char \<Rightarrow> bool" where
  "line_terminator c = (c = CHR 0x0A \<or> c = CHR 0x0D)"

text \<open>
  \<open>/^r$/.test(s)\<close>, and a lookahead \<open>(?=r)\<close> placed right after \<open>^\<close>: some prefix
  of the string matches \<open>r\<close>.
\<close>

definition regex_test :: "rexp \<Rightarrow> string \<Rightarrow> bool" where
  "regex_test r s = matches r s"

definition lookahead :: "rexp \<Rightarrow> string \<Rightarrow> bool" where
  "lookahead r s = list_ex (\<lambda>n. matches r (take n s)) [0..<Suc (length s)]"

text \<open>The language of a pattern, used to reason about \<open>matches\<close>.\<close>

definition conc :: "string set \<Rightarrow> string set \<Rightarrow> string set" where
  "conc A B = {u @ v | u v. u \<in> A \<and> v \<in> B}"

inductive_set star :: "string set \<Rightarrow> string set" for A :: "string set" where
  star_nil: "[] \<in> star A"
| star_app: "u \<in> A \<Longrightarrow> v \<in> star A \<Longrightarrow> u @ v \<in> star A"

fun lang :: "rexp \<Rightarrow> string set" where
  "lang Nothing = {}"
| "lang Empty = {[]}"
| "lang (Sym p) = {[c] | c. p c}"
| "lang (Alt r s) = lang r \<union> lang s"
| "lang (Seq r s) = conc (lang r) (lang s)"
| "lang (Star r) = star (lang r)"

section \<open>The schema validation library\<close>

text \<open>
  The validators are built with a schema library; what follows is the documented
  behaviour of the schema kinds and string checks the repository uses. Parsing a value
  yields the list of messages of the checks that failed, the empty list when the value is
  accepted; all checks of a string are run, none stops the others. A message is either
  the text the repository passes with the check, or \<open>LibraryMessage\<close>: the value is
  rejected in the library's own words, which are not spelled out here. How many issues
  the library words for one rejected number differs between its versions;
  \<open>LibraryMessage\<close> stands for all of them.

  Two major versions of the library are in use and the repository pins neither. They
  agree on everything modelled here except one point: a plain \<open>z.number()\<close> accepts the
  two infinities in version 3 and rejects them in version 4.
\<close>

datatype zod_version = Zod3 | Zod4

datatype message = Message string | LibraryMessage

datatype string_check =
    MinLength nat message
  | MaxLength nat message
  | ExactLength nat message
  | EmailFormat message
  | Pattern rexp message

datatype number_check = NumMin rat | NumMax rat | IsInt | IsFinite

datatype zschema =
    ZString "string_check list"
  | ZNumber "number_check list"
  | ZBoolean
  | ZDate
  | ZLiteral js_value
  | ZUnion "zschema list"
  | ZNullable zschema
  | ZOptional zschema

text \<open>
  The library's e-mail pattern, with the flag \<open>i\<close>: two negative lookaheads (no leading
  dot, no two dots in a row), a local part, \<open>@\<close>, one or more dotted labels and a top
  level of at least two letters.
\<close>

definition email_local :: rexp where
  "email_local =
     Seq (Star (Sym (\<lambda>c. letter c \<or> digit c
                       \<or> c \<in> {CHR ''_'', CHR 0x27, CHR ''+'', CHR ''-'', CHR ''.''})))
         (Sym (\<lambda>c. letter c \<or> digit c \<or> c \<in> {CHR ''_'', CHR ''+'', CHR ''-''}))"

definition email_domain :: rexp where
  "email_domain =
     Seq (AtLeast 1
            (Seq (Sym (\<lambda>c. letter c \<or> digit c))
              (Seq (Star (Sym (\<lambda>c. letter c \<or> digit c \<or> c = CHR ''-''))) (Lit CHR ''.''))))
         (AtLeast 2 (Sym letter))"

definition emailRegex :: "string \<Rightarrow> bool" where
  "emailRegex s =
     (\<not> lookahead (Lit CHR ''.'') s
      \<and> \<not> lookahead (Seq (Star (Sym (\<lambda>c. \<not> line_terminator c)))
                          (Seq (Lit CHR ''.'') (Lit CHR ''.''))) s
      \<and> regex_test (Seq email_local (Seq (Lit CHR ''@'') email_domain)) s)"

fun check_string :: "string_check \<Rightarrow> string \<Rightarrow> message list" where
  "check_string (MinLength n m) s = (if length s < n then [m] else [])"
| "check_string (MaxLength n m) s = (if length s > n then [m] else [])"
| "check_string (ExactLength n m) s = (if length s = n then [] else [m])"
| "check_string (EmailFormat m) s = (if emailRegex s then [] else [m])"
| "check_string (Pattern r m) s = (if regex_test r s then [] else [m])"

text \<open>
  Whether a number other than \<open>NaN\<close> passes a number check. Negative zero counts as
  zero; an infinity is never an integer and lies beyond every bound on its side.
\<close>

fun number_ok :: "number_check \<Rightarrow> js_number \<Rightarrow> bool" where
  "number_ok (NumMin lo) (Finite q) = (lo \<le> q)"
| "number_ok (NumMin lo) NegZero = (lo \<le> 0)"
| "number_ok (NumMin lo) n = (n = PosInfinity)"
| "number_ok (NumMax hi) (Finite q) = (q \<le> hi)"
| "number_ok (NumMax hi) NegZero = (0 \<le> hi)"
| "number_ok (NumMax hi) n = (n = NegInfinity)"
| "number_ok IsInt (Finite q) = (of_int \<lfloor>q\<rfloor> = q)"
| "number_ok IsInt n = (n = NegZero)"
| "number_ok IsFinite (Finite q) = True"
| "number_ok IsFinite n = (n = NegZero)"

text \<open>
  A number schema never accepts \<open>NaN\<close>, which the library parses as a type of its
  own; any other number is accepted when it passes every check of the schema. A union
  accepts what one of its options accepts.
\<close>

fun parse_value :: "zschema \<Rightarrow> js_value \<Rightarrow> message list" where
  "parse_value (ZString cs) v =
     (case v of
        JString s \<Rightarrow> concat (map (\<lambda>c. check_string c s) cs)
      | _ \<Rightarrow> [LibraryMessage])"
| "parse_value (ZNumber cs) v =
     (case v of
        JNumber n \<Rightarrow>
          (if n \<noteq> NaN \<and> list_all (\<lambda>c. number_ok c n) cs then [] else [LibraryMessage])
      | _ \<Rightarrow> [LibraryMessage])"
| "parse_value ZBoolean v =
     (case v of JBool b \<Rightarrow> [] | _ \<Rightarrow> [LibraryMessage])"
| "parse_value ZDate v =
     (case v of
        JDate (Some t) \<Rightarrow> []
      | JDate None \<Rightarrow> [LibraryMessage]
      | _ \<Rightarrow> [LibraryMessage])"
| "parse_value (ZLiteral l) v = (if v = l then [] else [LibraryMessage])"
| "parse_value (ZUnion options) v =
     (if \<exists>s \<in> set options. parse_value s v = [] then [] else [LibraryMessage])"
| "parse_value (ZNullable s) v = (if v = JNull then [] else parse_value s v)"
| "parse_value (ZOptional s) v = (if v = JUndefined then [] else parse_value s v)"

text \<open>
  The chained methods \<open>.min\<close>, \<open>.length\<close>, \<open>.email\<close> and \<open>.regex\<close> append a check
  to a string schema; the repository calls them on string columns only.
\<close>

fun z_min :: "nat \<Rightarrow> string \<Rightarrow> zschema \<Rightarrow> zschema" where
  "z_min n msg (ZString cs) = ZString (cs @ [MinLength n (Message msg)])"
| "z_min n msg s = s"

fun z_length :: "nat \<Rightarrow> string \<Rightarrow> zschema \<Rightarrow> zschema" where
  "z_length n msg (ZString cs) = ZString (cs @ [ExactLength n (Message msg)])"
| "z_length n msg s = s"

fun z_email :: "string \<Rightarrow> zschema \<Rightarrow> zschema" where
  "z_email msg (ZString cs) = ZString (cs @ [EmailFormat (Message msg)])"
| "z_email msg s = s"

fun z_regex :: "rexp \<Rightarrow> string \<Rightarrow> zschema \<Rightarrow> zschema" where
  "z_regex r msg (ZString cs) = ZString (cs @ [Pattern r (Message msg)])"
| "z_regex r msg s = s"

text \<open>
  An object schema lists its keys with their schemas. \<open>safeParse\<close> returns the
  library's tagged result: the data, cut down to the known keys, or the issues, each a
  field name with a message, in the order of the keys. The candidate input is an object,
  as the form values are.
\<close>

type_synonym object_schema = "(string \<times> zschema) list"

type_synonym issue = "string \<times> message"

datatype parse_result = Success js_object | Failure "issue list"

definition object_issues :: "object_schema \<Rightarrow> js_object \<Rightarrow> issue list" where
  "object_issues shape input =
     concat (map (\<lambda>(key, s). map (Pair key) (parse_value s (input key))) shape)"

definition strip :: "object_schema \<Rightarrow> js_object \<Rightarrow> js_object" where
  "strip shape input = (\<lambda>k. if k \<in> set (map fst shape) then input k else JUndefined)"

definition safeParse :: "object_schema \<Rightarrow> js_object \<Rightarrow> parse_result" where
  "safeParse shape input =
     (let issues = object_issues shape input
      in if issues = [] then Success (strip shape input) else Failure issues)"

fun issues_of :: "parse_result \<Rightarrow> issue list" where
  "issues_of (Success d) = []"
| "issues_of (Failure issues) = issues"

text \<open>The messages reported for one field.\<close>

definition field_messages :: "string \<Rightarrow> issue list \<Rightarrow> message list" where
  "field_messages key issues = map snd (filter (\<lambda>i. fst i = key) issues)"

section \<open>Deriving insert schemas from tables\<close>

text \<open>
  \<open>createInsertSchema\<close> turns each column into a schema by its type (a length limit
  of a \<open>varchar\<close> becomes a maximum length, integer columns are 32-bit integers, which
  rules the infinities out under either version of the library), applies
  the refinement given for the column, then makes a nullable column nullable and a column
  that is nullable or has a default optional. A refinement that is itself a schema
  replaces the column's schema as it stands.
\<close>

datatype column_type =
    PgSerial | PgInteger | PgVarchar "nat option" | PgText | PgBoolean | PgTimestamp

record column =
  dataType :: column_type
  notNull :: bool
  hasDefault :: bool

definition col :: "column_type \<Rightarrow> bool \<Rightarrow> bool \<Rightarrow> column" where
  "col t nn d = \<lparr>dataType = t, notNull = nn, hasDefault = d\<rparr>"

type_synonym table = "(string \<times> column) list"

datatype refinement = Replace zschema | Refine "zschema \<Rightarrow> zschema"

fun columnToSchema :: "column_type \<Rightarrow> zschema" where
  "columnToSchema PgSerial = ZNumber [NumMin (- 2147483648), NumMax 2147483647, IsInt]"
| "columnToSchema PgInteger = ZNumber [NumMin (- 2147483648), NumMax 2147483647, IsInt]"
| "columnToSchema (PgVarchar (Some n)) = ZString [MaxLength n LibraryMessage]"
| "columnToSchema (PgVarchar None) = ZString []"
| "columnToSchema PgText = ZString []"
| "columnToSchema PgBoolean = ZBoolean"
| "columnToSchema PgTimestamp = ZDate"

definition insertColumn :: "column \<Rightarrow> refinement option \<Rightarrow> zschema" where
  "insertColumn c r =
     (case r of
        Some (Replace s) \<Rightarrow> s
      | _ \<Rightarrow>
          (let base = columnToSchema (dataType c);
               refined = (case r of Some (Refine f) \<Rightarrow> f base | _ \<Rightarrow> base);
               nullable = (if notNull c then refined else ZNullable refined)
           in if notNull c \<and> \<not> hasDefault c then nullable else ZOptional nullable))"

definition createInsertSchema :: "table \<Rightarrow> (string \<times> refinement) list \<Rightarrow> object_schema" where
  "createInsertSchema tbl refine =
     map (\<lambda>(key, c). (key, insertColumn c (map_of refine key))) tbl"

section \<open>The tables (db/schema.ts)\<close>

text \<open>
  Each column with its type, whether it is \<open>notNull\<close> and whether it has a default
  (\<open>serial\<close> columns, \<open>.default(...)\<close> and \<open>.defaultNow()\<close>).
\<close>

definition customers :: table where
  "customers =
     [(''id'', col PgSerial True True),
      (''firstName'', col (PgVarchar None) True False),
      (''lastName'', col (PgVarchar None) True False),
      (''email'', col (PgVarchar None) True False),
      (''phone'', col (PgVarchar None) True False),
      (''address1'', col (PgVarchar None) True False),
      (''address2'', col (PgVarchar None) False False),
      (''city'', col (PgVarchar None) True False),
      (''state'', col (PgVarchar (Some 2)) True False),
      (''zipCode'', col (PgVarchar (Some 10)) True False),
      (''notes'', col PgText False False),
      (''active'', col PgBoolean True True),
      (''createdAt'', col PgTimestamp True True),
      (''updatedAt'', col PgTimestamp True True)]"

definition tickets :: table where
  "tickets =
     [(''id'', col PgSerial True True),
      (''customerId'', col PgInteger True False),
      (''title'', col (PgVarchar None) True False),
      (''description'', col PgText False False),
      (''completed'', col PgBoolean True True),
      (''tech'', col (PgVarchar None) True True),
      (''createdAt'', col PgTimestamp True True),
      (''updatedAt'', col PgTimestamp True True)]"

section \<open>The insert validators (zod-schema/customer.ts, zod-schema/ticket.ts)\<close>

text \<open>The two patterns of the customer schema, \<open>^\d{5}(-\d{4})?$\<close> and
  \<open>^\d{3}-\d{3}-\d{4}$\<close>.\<close>

definition zipCodeRegex :: rexp where
  "zipCodeRegex =
     Seq (Rep 5 (Sym digit)) (Opt (Seq (Lit CHR ''-'') (Rep 4 (Sym digit))))"

definition phoneRegex :: rexp where
  "phoneRegex =
     Seq (Rep 3 (Sym digit))
       (Seq (Lit CHR ''-'') (Seq (Rep 3 (Sym digit)) (Seq (Lit CHR ''-'') (Rep 4 (Sym digit)))))"

definition insertCustomerSchema :: object_schema where
  "insertCustomerSchema =
     createInsertSchema customers
       [(''firstName'', Refine (z_min 1 ''First name is required'')),
        (''lastName'', Refine (z_min 1 ''Last name is required'')),
        (''address1'', Refine (z_min 1 ''Address is required'')),
        (''city'', Refine (z_min 1 ''City is required'')),
        (''state'', Refine (z_length 2 ''State must be 2 characters'')),
        (''email'', Refine (z_email ''Invalid email address'')),
        (''zipCode'', Refine (z_regex zipCodeRegex
           ''Invalid zip code. Use 5 digits or 5 digits followed by a hyphen and 4 digits'')),
        (''phone'', Refine (z_regex phoneRegex
           ''Invalid phone number. Use format: 123-456-7890''))]"

text \<open>
  \<open>z.number()\<close> as the installed version builds it: version 4 rejects the infinities
  with the type, which is a finiteness check in front of any other.
\<close>

definition z_number :: "zod_version \<Rightarrow> zschema" where
  "z_number version = (case version of Zod3 \<Rightarrow> ZNumber [] | Zod4 \<Rightarrow> ZNumber [IsFinite])"

definition insertTicketSchema :: "zod_version \<Rightarrow> object_schema" where
  "insertTicketSchema version =
     createInsertSchema tickets
       [(''id'', Replace (ZUnion [z_number version, ZLiteral (JString ''(New)'')])),
        (''title'', Refine (z_min 1 ''Title is required'')),
        (''description'', Refine (z_min 1 ''Description is required'')),
        (''tech'', Refine (z_min 1 ''Tech is required''))]"

text \<open>
  The two formats in plain words, as the error messages describe them: five digits,
  or five digits, a hyphen and four digits; and three digits, a hyphen, three digits, a
  hyphen and four digits.
\<close>

definition zip_shape :: "string \<Rightarrow> bool" where
  "zip_shape z =
     (list_all digit (take 5 z) \<and>
      (length z = 5 \<or>
       length z = 10 \<and> z ! 5 = CHR ''-'' \<and> list_all digit (drop 6 z)))"

definition phone_shape :: "string \<Rightarrow> bool" where
  "phone_shape p =
     (length p = 12 \<and> list_all digit (take 3 p) \<and> p ! 3 = CHR ''-''
      \<and> list_all digit (take 3 (drop 4 p)) \<and> p ! 7 = CHR ''-''
      \<and> list_all digit (drop 8 p))"

section \<open>The ticket form (tickets/form/TicketForm.tsx)\<close>

text \<open>
  The default values of the form, from the customer and the optional ticket: each field
  is \<open>ticket?.field ?? fallback\<close>. Keys the object literal does not set read
  \<open>undefined\<close>.
\<close>

definition defaultValues :: "js_object \<Rightarrow> js_object option \<Rightarrow> js_object" where
  "defaultValues customer ticket =
     empty_object
       (''id'' := nullish_coalesce (optional_get ticket ''id'') (JString ''(New)''),
        ''customerId'' := nullish_coalesce (optional_get ticket ''customerId'') (customer ''id''),
        ''title'' := nullish_coalesce (optional_get ticket ''title'') (JString []),
        ''description'' := nullish_coalesce (optional_get ticket ''description'') (JString []),
        ''completed'' := nullish_coalesce (optional_get ticket ''completed'') (JBool False),
        ''tech'' := nullish_coalesce (optional_get ticket ''tech'')
                     (JString ''new-ticket@example.com''))"

section \<open>The customer form page (customers/form/page.tsx)\<close>

text \<open>
  The page awaits the navigation parameters and, for a truthy \<open>customerId\<close>, the
  record fetched by \<open>getCustomer\<close>. Both are outside the page: \<open>searchParams\<close> is
  the outcome of the awaited promise (\<open>Inl e\<close> when it rejects with \<open>e\<close>), and
  \<open>getCustomer\<close> maps an id to the outcome of the fetch, a record or no record when it
  resolves. A run yields what the page did, in order, and how it ended. Console lines are
  kept by their label; the value printed after the label is left out.
\<close>

datatype element = BackButton string string string

datatype view =
    NotFound string element
  | CustomerForm "js_object option"

datatype event =
    ConsoleLog string
  | ConsoleError string js_exn
  | GetCustomer js_number
  | CaptureException js_exn

datatype outcome = Rendered view | ReturnedUndefined | Thrown js_exn

text \<open>The body of the \<open>try\<close> block: the events so far, and a view or the exception
  that left the block.\<close>

definition try_block ::
  "js_exn + (string \<rightharpoonup> string) \<Rightarrow> (js_number \<Rightarrow> js_exn + js_object option)
     \<Rightarrow> event list \<times> (js_exn + view)" where
  "try_block searchParams getCustomer =
     (case searchParams of
        Inl e \<Rightarrow> ([], Inl e)
      | Inr params \<Rightarrow>
          (let seen1 = [ConsoleLog ''=== DEBUG: All searchParams:'',
                        ConsoleLog ''=== DEBUG: customerId extracted:''];
               customerId = params ''customerId''
           in if truthy customerId
              then
                (let idText = the customerId;
                     seen2 = seen1 @ [ConsoleLog ''=== DEBUG: Fetching customer with ID:'',
                                      GetCustomer (parseInt idText)]
                 in case getCustomer (parseInt idText) of
                      Inl e \<Rightarrow> (seen2, Inl e)
                    | Inr customer \<Rightarrow>
                        (let seen3 = seen2 @ [ConsoleLog ''=== DEBUG: Customer data:'']
                         in case customer of
                              None \<Rightarrow>
                                (seen3, Inr (NotFound idText
                                          (BackButton ''Go Back'' ''default'' ''ml-4'')))
                            | Some c \<Rightarrow>
                                (seen3 @ [ConsoleLog
                                   ''=== DEBUG: Rendering edit form for customer:''],
                                 Inr (CustomerForm (Some c)))))
              else
                (seen1 @ [ConsoleLog ''=== DEBUG: No customerId, rendering new customer form''],
                 Inr (CustomerForm None))))"

text \<open>The page: the \<open>try\<close> block with its \<open>catch\<close> handler, which reports and
  re-throws under the guard \<open>e instanceof Error\<close> and otherwise falls off the end of the
  function.\<close>

definition CustomerFormPage ::
  "js_exn + (string \<rightharpoonup> string) \<Rightarrow> (js_number \<Rightarrow> js_exn + js_object option)
     \<Rightarrow> event list \<times> outcome" where
  "CustomerFormPage searchParams getCustomer =
     (case try_block searchParams getCustomer of
        (seen, Inr v) \<Rightarrow> (seen, Rendered v)
      | (seen, Inl e) \<Rightarrow>
          (let seen' = seen @ [ConsoleError ''=== DEBUG: Error caught:'' e]
           in if instanceof_Error e then (seen' @ [CaptureException e], Thrown e)
              else (seen', ReturnedUndefined)))"

text \<open>The exceptions handed to the error reporter, and the ids fetched, in order.\<close>

fun captured :: "event list \<Rightarrow> js_exn list" where
  "captured [] = []"
| "captured (CaptureException e # evs) = e # captured evs"
| "captured (ev # evs) = captured evs"

fun fetched :: "event list \<Rightarrow> js_number list" where
  "fetched [] = []"
| "fetched (GetCustomer n # evs) = n # fetched evs"
| "fetched (ev # evs) = fetched evs"

section \<open>The migration runner (db/migrate.ts)\<close>

text \<open>
  \<open>main\<close> awaits \<open>migrate\<close>, whose outcome is the parameter: \<open>Inl e\<close> when it
  rejects with \<open>e\<close>, \<open>Inr ()\<close> when it resolves. The run yields the console output
  in order and the code passed to \<open>process.exit\<close>, if it was called.
\<close>

datatype console_line =
    Log string
  | LogError string js_exn

record run_result =
  console :: "console_line list"
  exit_code :: "int option"

definition main :: "js_exn + unit \<Rightarrow> run_result" where
  "main migrate =
     (case migrate of
        Inr u \<Rightarrow>
          \<lparr>console = [Log ''Migrations applied successfully.''], exit_code = None\<rparr>
      | Inl error \<Rightarrow>
          \<lparr>console = [LogError ''Error applying migrations:'' error], exit_code = Some 1\<rparr>)"

section \<open>Matching and languages\<close>

lemma nullable_lang: "nullable r \<longleftrightarrow> [] \<in> lang r"
  by (induction r) (auto simp: conc_def intro: star.star_nil)

lemma cons_in_conc:
  "c # w \<in> conc A B \<longleftrightarrow>
     ([] \<in> A \<and> c # w \<in> B) \<or> (\<exists>u v. w = u @ v \<and> c # u \<in> A \<and> v \<in> B)"
  unfolding conc_def
  by (auto simp: Cons_eq_append_conv)

lemma cons_in_star_D:
  assumes "x \<in> star A" and "x = c # w"
  shows "\<exists>u v. w = u @ v \<and> c # u \<in> A \<and> v \<in> star A"
  using assms
proof (induction arbitrary: w rule: star.induct)
  case star_nil
  then show ?case by simp
next
  case (star_app u v)
  show ?case
  proof (cases u)
    case Nil
    with star_app show ?thesis by simp
  next
    case (Cons a u')
    with star_app.prems have "a = c" and "w = u' @ v" by simp_all
    with Cons star_app.hyps show ?thesis by blast
  qed
qed

lemma cons_in_star:
  "c # w \<in> star A \<longleftrightarrow> (\<exists>u v. w = u @ v \<and> c # u \<in> A \<and> v \<in> star A)"
proof
  assume "c # w \<in> star A"
  then show "\<exists>u v. w = u @ v \<and> c # u \<in> A \<and> v \<in> star A"
    by (rule cons_in_star_D) simp
next
  assume "\<exists>u v. w = u @ v \<and> c # u \<in> A \<and> v \<in> star A"
  then obtain u v where "w = u @ v" "c # u \<in> A" "v \<in> star A" by blast
  then have "(c # u) @ v \<in> star A" by (intro star.star_app)
  with \<open>w = u @ v\<close> show "c # w \<in> star A" by simp
qed

lemma lang_deriv: "w \<in> lang (deriv c r) \<longleftrightarrow> c # w \<in> lang r"
proof (induction r arbitrary: w)
  case (Seq r s)
  then show ?case
    by (auto simp: cons_in_conc nullable_lang) (auto simp: conc_def)
next
  case (Star r)
  then show ?case
    by (auto simp: cons_in_star) (auto simp: conc_def)
qed auto

lemma matches_lang: "matches r w \<longleftrightarrow> w \<in> lang r"
  by (induction w arbitrary: r) (simp_all add: nullable_lang lang_deriv)

lemma lang_Lit: "lang (Lit c) = {[c]}"
  by (auto simp: Lit_def)

lemma lang_Opt: "lang (Opt r) = lang r \<union> {[]}"
  by (simp add: Opt_def)

lemma sym_conc: "w \<in> conc {[c] | c. p c} B \<longleftrightarrow> (\<exists>a u. w = a # u \<and> p a \<and> u \<in> B)"
proof
  assume "w \<in> conc {[c] | c. p c} B"
  then obtain x v where "w = x @ v" "x \<in> {[c] | c. p c}" "v \<in> B"
    unfolding conc_def by blast
  then show "\<exists>a u. w = a # u \<and> p a \<and> u \<in> B" by auto
next
  assume "\<exists>a u. w = a # u \<and> p a \<and> u \<in> B"
  then obtain a u where "w = [a] @ u" "p a" "u \<in> B" by auto
  then show "w \<in> conc {[c] | c. p c} B"
    unfolding conc_def by blast
qed

lemma lang_Rep_Sym: "lang (Rep n (Sym p)) = {w. length w = n \<and> list_all p w}"
proof (induction n)
  case 0
  then show ?case by auto
next
  case (Suc n)
  have "w \<in> lang (Rep (Suc n) (Sym p)) \<longleftrightarrow> length w = Suc n \<and> list_all p w" for w
    by (cases w) (auto simp: sym_conc Suc)
  then show ?case by blast
qed

lemma conc_fixed_left:
  assumes "\<And>u. u \<in> A \<Longrightarrow> length u = n"
  shows "w \<in> conc A B \<longleftrightarrow> n \<le> length w \<and> take n w \<in> A \<and> drop n w \<in> B"
proof
  assume "w \<in> conc A B"
  then obtain u v where w: "w = u @ v" and u: "u \<in> A" and v: "v \<in> B"
    unfolding conc_def by blast
  from u have "length u = n" by (rule assms)
  with w u v show "n \<le> length w \<and> take n w \<in> A \<and> drop n w \<in> B" by simp
next
  assume "n \<le> length w \<and> take n w \<in> A \<and> drop n w \<in> B"
  then have "take n w @ drop n w \<in> conc A B"
    unfolding conc_def by blast
  then show "w \<in> conc A B" by simp
qed

lemma lit_conc: "w \<in> conc {[c]} B \<longleftrightarrow> (\<exists>u. w = c # u \<and> u \<in> B)"
proof -
  have "{[c]} = {[x] | x. x = c}" by simp
  then show ?thesis
    by (simp only: sym_conc) simp
qed

lemma class_conc:
  "w \<in> conc {u. length u = n \<and> list_all p u} B
     \<longleftrightarrow> n \<le> length w \<and> list_all p (take n w) \<and> drop n w \<in> B"
proof -
  have "w \<in> conc {u. length u = n \<and> list_all p u} B
      \<longleftrightarrow> n \<le> length w \<and> take n w \<in> {u. length u = n \<and> list_all p u} \<and> drop n w \<in> B"
    by (rule conc_fixed_left) simp
  then show ?thesis
    by simp linarith
qed

lemma drop_eq_Cons_iff:
  "drop n w = c # u \<longleftrightarrow> n < length w \<and> w ! n = c \<and> drop (Suc n) w = u"
proof
  assume d: "drop n w = c # u"
  then have n: "n < length w"
    by (metis drop_eq_Nil leI list.distinct(1))
  then have "drop n w = w ! n # drop (Suc n) w"
    by (simp add: Cons_nth_drop_Suc)
  with d n show "n < length w \<and> w ! n = c \<and> drop (Suc n) w = u" by simp
next
  assume "n < length w \<and> w ! n = c \<and> drop (Suc n) w = u"
  then show "drop n w = c # u"
    by (metis Cons_nth_drop_Suc)
qed

lemmas regex_language =
  regex_test_def matches_lang lang_Lit lang_Opt lang_Rep_Sym
  lit_conc class_conc drop_eq_Cons_iff

lemma zip_language: "regex_test zipCodeRegex z = zip_shape z"
  unfolding zipCodeRegex_def zip_shape_def
  by (auto simp: regex_language)

lemma phone_language: "regex_test phoneRegex p = phone_shape p"
  unfolding phoneRegex_def phone_shape_def
  by (auto simp: regex_language)

lemma email_needs_at: "emailRegex s \<Longrightarrow> CHR ''@'' \<in> set s"
proof -
  assume "emailRegex s"
  then have "s \<in> conc (lang email_local) (conc {[CHR ''@'']} (lang email_domain))"
    by (simp add: emailRegex_def regex_test_def matches_lang lang_Lit)
  then obtain u v where "s = u @ v" and "v \<in> conc {[CHR ''@'']} (lang email_domain)"
    unfolding conc_def by blast
  then show ?thesis
    by (auto simp: lit_conc)
qed

text \<open>The documentation's examples of the e-mail check.\<close>

lemma email_examples:
  "emailRegex ''john@example.com''"
  "\<not> emailRegex ''john@example''"
  "\<not> emailRegex ''notanemail''"
  by code_simp+

section \<open>Issues of an object schema\<close>

lemma field_messages_object_issues:
  "distinct (map fst shape) \<Longrightarrow>
     field_messages key (object_issues shape input) =
       (case map_of shape key of None \<Rightarrow> [] | Some s \<Rightarrow> parse_value s (input key))"
proof (induction shape)
  case Nil
  then show ?case by (simp add: field_messages_def object_issues_def)
next
  case (Cons a shape)
  obtain k s where a: "a = (k, s)" by (cases a)
  have split: "field_messages key (object_issues (a # shape) input) =
      field_messages key (map (Pair k) (parse_value s (input k)))
        @ field_messages key (object_issues shape input)"
    by (simp add: a field_messages_def object_issues_def)
  have here: "field_messages key (map (Pair k) ms) = (if k = key then ms else [])" for ms
    by (induction ms) (auto simp: field_messages_def)
  from Cons.prems have rest: "distinct (map fst shape)" and fresh: "map_of shape k = None"
    by (auto simp: a map_of_eq_None_iff)
  show ?case
    unfolding split here Cons.IH [OF rest]
    using fresh by (auto simp: a)
qed

lemma issues_of_safeParse: "issues_of (safeParse shape input) = object_issues shape input"
  by (simp add: safeParse_def Let_def)

lemma failure_of_field_message:
  assumes "field_messages key (issues_of (safeParse shape input)) \<noteq> []"
  shows "safeParse shape input = Failure (object_issues shape input)"
proof -
  from assms have "object_issues shape input \<noteq> []"
    by (auto simp: issues_of_safeParse field_messages_def)
  then show ?thesis
    by (simp add: safeParse_def)
qed

section \<open>The derived schemas, field by field\<close>

lemma insertCustomerSchema_distinct: "distinct (map fst insertCustomerSchema)"
  by (simp add: insertCustomerSchema_def createInsertSchema_def customers_def)

lemma insertTicketSchema_distinct: "distinct (map fst (insertTicketSchema version))"
  by (simp add: insertTicketSchema_def createInsertSchema_def tickets_def)

lemma customer_email_schema:
  "map_of insertCustomerSchema ''email'' =
     Some (ZString [EmailFormat (Message ''Invalid email address'')])"
  by (simp add: insertCustomerSchema_def createInsertSchema_def customers_def
      insertColumn_def col_def)

lemma customer_state_schema:
  "map_of insertCustomerSchema ''state'' =
     Some (ZString [MaxLength 2 LibraryMessage,
                    ExactLength 2 (Message ''State must be 2 characters'')])"
  by (simp add: insertCustomerSchema_def createInsertSchema_def customers_def
      insertColumn_def col_def)

lemma customer_zipCode_schema:
  "map_of insertCustomerSchema ''zipCode'' =
     Some (ZString [MaxLength 10 LibraryMessage,
                    Pattern zipCodeRegex (Message
     ''Invalid zip code. Use 5 digits or 5 digits followed by a hyphen and 4 digits'')])"
  by (simp add: insertCustomerSchema_def createInsertSchema_def customers_def
      insertColumn_def col_def)

lemma customer_phone_schema:
  "map_of insertCustomerSchema ''phone'' =
     Some (ZString [Pattern phoneRegex
                      (Message ''Invalid phone number. Use format: 123-456-7890'')])"
  by (simp add: insertCustomerSchema_def createInsertSchema_def customers_def
      insertColumn_def col_def)

lemma ticket_id_schema:
  "map_of (insertTicketSchema version) ''id'' =
     Some (ZUnion [z_number version, ZLiteral (JString ''(New)'')])"
  by (simp add: insertTicketSchema_def createInsertSchema_def tickets_def
      insertColumn_def col_def)

lemma customer_field_messages:
  "field_messages key (issues_of (safeParse insertCustomerSchema input)) =
     (case map_of insertCustomerSchema key of
        None \<Rightarrow> []
      | Some s \<Rightarrow> parse_value s (input key))"
  by (simp only: issues_of_safeParse
      field_messages_object_issues [OF insertCustomerSchema_distinct])

lemma ticket_field_messages:
  "field_messages key (issues_of (safeParse (insertTicketSchema version) input)) =
     (case map_of (insertTicketSchema version) key of
        None \<Rightarrow> []
      | Some s \<Rightarrow> parse_value s (input key))"
  by (simp only: issues_of_safeParse
      field_messages_object_issues [OF insertTicketSchema_distinct])

text \<open>
  What a plain \<open>z.number()\<close> accepts: every finite number, negative zero among them,
  under both versions, the infinities under version 3 only, \<open>NaN\<close> and anything that is
  not a number never.
\<close>

lemma z_number_accepts:
  "(parse_value (z_number version) v = []) =
     ((\<exists>q. v = JNumber (Finite q)) \<or> v = JNumber NegZero
      \<or> (version = Zod3 \<and> (v = JNumber PosInfinity \<or> v = JNumber NegInfinity)))"
proof -
  have "(parse_value (z_number version) (JNumber n) = []) =
     ((\<exists>q. n = Finite q) \<or> n = NegZero
      \<or> (version = Zod3 \<and> (n = PosInfinity \<or> n = NegInfinity)))" for n
    by (cases version; cases n) (simp_all add: z_number_def)
  then show ?thesis
    by (cases v) (auto simp: z_number_def split: zod_version.splits)
qed

section \<open>Reading integers\<close>

declare bit_length.simps [simp del]

text \<open>
  Small integers are read exactly; \<open>2^53 + 1\<close> is not a double and is read as
  \<open>2^53\<close>, \<open>2^53 + 3\<close> as \<open>2^53 + 4\<close>; \<open>-0\<close> is read as negative zero; text
  without a leading digit is read as \<open>NaN\<close>; a digit run beyond the range of doubles
  is read as an infinity.
\<close>

lemmas parseInt_eval =
  parseInt_def white_space_def digit_value_def to_double_def Let_def bit_length.simps

lemma parseInt_examples:
  "parseInt ''42'' = Finite 42"
  "parseInt '' -17px'' = Finite (- 17)"
  "parseInt ''0x1F'' = Finite 31"
  "parseInt ''9007199254740993'' = Finite 9007199254740992"
  "parseInt ''9007199254740995'' = Finite 9007199254740996"
  "parseInt ''-0'' = NegZero"
  "parseInt ''abc'' = NaN"
  by (simp_all add: parseInt_eval)

text \<open>A run of 310 nines, and the same with a minus sign.\<close>

lemma parseInt_overflow:
  "parseInt
     ''9999999999999999999999999999999999999999999999999999999999999999999999999999999999999999999999999999999999999999999999999999999999999999999999999999999999999999999999999999999999999999999999999999999999999999999999999999999999999999999999999999999999999999999999999999999999999999999999999999999999999999999999''
     = PosInfinity"
  "parseInt
     ''-9999999999999999999999999999999999999999999999999999999999999999999999999999999999999999999999999999999999999999999999999999999999999999999999999999999999999999999999999999999999999999999999999999999999999999999999999999999999999999999999999999999999999999999999999999999999999999999999999999999999999999999999''
     = NegInfinity"
  by (simp_all add: parseInt_eval)

section \<open>Events of a page run\<close>

lemma captured_append: "captured (xs @ ys) = captured xs @ captured ys"
  by (induction xs rule: captured.induct) simp_all

lemma fetched_append: "fetched (xs @ ys) = fetched xs @ fetched ys"
  by (induction xs rule: fetched.induct) simp_all

lemmas defaultValues_simps =
  defaultValues_def nullish_coalesce_def nullish_def optional_get_def empty_object_def

section \<open>Verified properties\<close>

text \<open>
  C1. For every optional ticket record, the default value the ticket form computes for a
  field is the record's value whenever the record has one (a value other than
  \<open>undefined\<close> and \<open>null\<close>, which is what \<open>??\<close> tests); in particular a record with
  \<open>completed\<close> true gives the default true. Otherwise the default is the blank one:
  the empty string for the title and the description, false for \<open>completed\<close>,
  \<open>"(New)"\<close> for the id and the placeholder address for the technician. A missing
  record has no field value at all.
\<close>

theorem C1_ticket_default_values:
  "(\<forall>key \<in> {''id'', ''customerId'', ''title'', ''description'', ''completed'', ''tech''}.
       \<not> nullish (optional_get ticket key) \<longrightarrow>
         defaultValues customer ticket key = optional_get ticket key)
   \<and> (optional_get ticket ''completed'' = JBool True \<longrightarrow>
         defaultValues customer ticket ''completed'' = JBool True)
   \<and> (nullish (optional_get ticket ''title'') \<longrightarrow>
         defaultValues customer ticket ''title'' = JString [])
   \<and> (nullish (optional_get ticket ''description'') \<longrightarrow>
         defaultValues customer ticket ''description'' = JString [])
   \<and> (nullish (optional_get ticket ''completed'') \<longrightarrow>
         defaultValues customer ticket ''completed'' = JBool False)
   \<and> (nullish (optional_get ticket ''id'') \<longrightarrow>
         defaultValues customer ticket ''id'' = JString ''(New)'')
   \<and> (nullish (optional_get ticket ''tech'') \<longrightarrow>
         defaultValues customer ticket ''tech'' = JString ''new-ticket@example.com'')
   \<and> (\<forall>key. nullish (optional_get None key))"
  by (simp add: defaultValues_simps)

text \<open>
  C1, at a ticket with id 12 that is completed and has no title, and at no ticket.
\<close>

theorem C1_ticket_default_values_witness:
  "defaultValues (empty_object(''id'' := JNumber (Finite 3)))
      (Some (empty_object(''id'' := JNumber (Finite 12), ''completed'' := JBool True))) ''completed''
     = JBool True
   \<and> defaultValues (empty_object(''id'' := JNumber (Finite 3)))
      (Some (empty_object(''id'' := JNumber (Finite 12), ''completed'' := JBool True))) ''id''
     = JNumber (Finite 12)
   \<and> defaultValues (empty_object(''id'' := JNumber (Finite 3)))
      (Some (empty_object(''id'' := JNumber (Finite 12), ''completed'' := JBool True))) ''title''
     = JString []
   \<and> defaultValues (empty_object(''id'' := JNumber (Finite 3))) None ''id'' = JString ''(New)''"
  using C1_ticket_default_values
      [of "Some (empty_object(''id'' := JNumber (Finite 12), ''completed'' := JBool True))"
          "empty_object(''id'' := JNumber (Finite 3))"]
    C1_ticket_default_values [of None "empty_object(''id'' := JNumber (Finite 3))"]
  by (simp add: nullish_def optional_get_def empty_object_def)

text \<open>
  C2, as amended. An exception leaves the \<open>try\<close> block when the awaited parameters
  reject or when the fetch for a truthy \<open>customerId\<close> rejects. Whenever the thrown
  value is an instance of \<open>Error\<close>, the page hands it to the error reporter, exactly
  once, and then re-throws it.
\<close>

theorem C2_error_instances_reported_and_rethrown:
  assumes "searchParams = Inl e
     \<or> (\<exists>params idText. searchParams = Inr params \<and> params ''customerId'' = Some idText
           \<and> idText \<noteq> [] \<and> getCustomer (parseInt idText) = Inl e)"
    and "instanceof_Error e"
  shows "snd (CustomerFormPage searchParams getCustomer) = Thrown e
     \<and> captured (fst (CustomerFormPage searchParams getCustomer)) = [e]"
  using assms
  by (auto simp: CustomerFormPage_def try_block_def captured_append)

text \<open>C2 as amended, at a fetch for id 7 that rejects with an \<open>Error\<close>.\<close>

theorem C2_error_instances_reported_and_rethrown_witness:
  "snd (CustomerFormPage (Inr (Map.empty(''customerId'' \<mapsto> ''7'')))
          (\<lambda>n. Inl (ErrorInstance ''connection refused'')))
     = Thrown (ErrorInstance ''connection refused'')
   \<and> captured (fst (CustomerFormPage (Inr (Map.empty(''customerId'' \<mapsto> ''7'')))
          (\<lambda>n. Inl (ErrorInstance ''connection refused''))))
     = [ErrorInstance ''connection refused'']"
  using C2_error_instances_reported_and_rethrown
    [of "Inr (Map.empty(''customerId'' \<mapsto> ''7''))" "ErrorInstance ''connection refused''"
        "\<lambda>n. Inl (ErrorInstance ''connection refused'')"]
  by simp

text \<open>
  C2 as first stated fails: when the fetch for id 7 rejects with a string, the page
  neither reports nor re-throws it; the run ends by returning \<open>undefined\<close>.
\<close>

theorem C2_non_error_swallowed:
  "snd (CustomerFormPage (Inr (Map.empty(''customerId'' \<mapsto> ''7'')))
          (\<lambda>n. Inl (ThrownValue (JString ''connection refused''))))
     = ReturnedUndefined
   \<and> captured (fst (CustomerFormPage (Inr (Map.empty(''customerId'' \<mapsto> ''7'')))
          (\<lambda>n. Inl (ThrownValue (JString ''connection refused'')))))
     = []"
  by (simp add: CustomerFormPage_def try_block_def)

text \<open>
  C3, as amended. For every parameter map: if \<open>customerId\<close> is absent or is the empty
  string, the page renders the form with no record and fetches nothing. If it is a
  non-empty string, the page fetches exactly once, by the id \<open>parseInt\<close> reads from it;
  if the fetch finds no record the page renders the not-found view, with its back
  button, instead of throwing; if it finds a record the page renders the form with that
  record.
\<close>

theorem C3_page_routing:
  "(params ''customerId'' = None \<or> params ''customerId'' = Some [] \<longrightarrow>
      snd (CustomerFormPage (Inr params) getCustomer) = Rendered (CustomerForm None)
      \<and> fetched (fst (CustomerFormPage (Inr params) getCustomer)) = [])
   \<and> (\<forall>idText. params ''customerId'' = Some idText \<and> idText \<noteq> [] \<longrightarrow>
        fetched (fst (CustomerFormPage (Inr params) getCustomer)) = [parseInt idText]
        \<and> (getCustomer (parseInt idText) = Inr None \<longrightarrow>
             snd (CustomerFormPage (Inr params) getCustomer)
               = Rendered (NotFound idText (BackButton ''Go Back'' ''default'' ''ml-4'')))
        \<and> (\<forall>customer. getCustomer (parseInt idText) = Inr (Some customer) \<longrightarrow>
             snd (CustomerFormPage (Inr params) getCustomer)
               = Rendered (CustomerForm (Some customer))))"
  by (auto simp: CustomerFormPage_def try_block_def fetched_append Let_def
      split: sum.splits option.splits)

text \<open>
  C3 as amended, at no parameter, at \<open>customerId=42\<close> with no such record, and at
  \<open>customerId=42\<close> with a record.
\<close>

theorem C3_page_routing_witness:
  "snd (CustomerFormPage (Inr Map.empty) (\<lambda>n. Inr None)) = Rendered (CustomerForm None)
   \<and> fetched (fst (CustomerFormPage (Inr (Map.empty(''customerId'' \<mapsto> ''42''))) (\<lambda>n. Inr None)))
       = [Finite 42]
   \<and> snd (CustomerFormPage (Inr (Map.empty(''customerId'' \<mapsto> ''42''))) (\<lambda>n. Inr None))
       = Rendered (NotFound ''42'' (BackButton ''Go Back'' ''default'' ''ml-4''))
   \<and> snd (CustomerFormPage (Inr (Map.empty(''customerId'' \<mapsto> ''42'')))
          (\<lambda>n. Inr (Some (empty_object(''id'' := JNumber n)))))
       = Rendered (CustomerForm (Some (empty_object(''id'' := JNumber (Finite 42)))))"
proof -
  have p: "parseInt ''42'' = Finite 42"
    by (simp add: parseInt_def white_space_def digit_value_def to_double_def)
  show ?thesis
    using C3_page_routing [of Map.empty "\<lambda>n. Inr None"]
      C3_page_routing [of "Map.empty(''customerId'' \<mapsto> ''42'')" "\<lambda>n. Inr None"]
      C3_page_routing [of "Map.empty(''customerId'' \<mapsto> ''42'')"
        "\<lambda>n. Inr (Some (empty_object(''id'' := JNumber n)))"]
    by (simp add: p)
qed

text \<open>
  C3 as first stated fails: with \<open>customerId\<close> present but empty, the page fetches
  nothing and renders the form with no record.
\<close>

theorem C3_empty_customerId_not_fetched:
  "(Map.empty(''customerId'' \<mapsto> [])) ''customerId'' = Some []
   \<and> fetched (fst (CustomerFormPage (Inr (Map.empty(''customerId'' \<mapsto> []))) (\<lambda>n. Inr None))) = []
   \<and> snd (CustomerFormPage (Inr (Map.empty(''customerId'' \<mapsto> []))) (\<lambda>n. Inr None))
       = Rendered (CustomerForm None)"
  by (simp add: CustomerFormPage_def try_block_def)

text \<open>
  C4. For every customer input whose e-mail is a string without \<open>@\<close>, insert
  validation fails, and the messages reported for the e-mail field are exactly the one
  message \<open>Invalid email address\<close>.
\<close>

theorem C4_email_without_at:
  assumes "input ''email'' = JString e" and "CHR ''@'' \<notin> set e"
  shows "\<exists>issues. safeParse insertCustomerSchema input = Failure issues
           \<and> field_messages ''email'' issues = [Message ''Invalid email address'']"
proof -
  from assms(2) have "\<not> emailRegex e"
    using email_needs_at by blast
  with assms(1) have m: "field_messages ''email'' (issues_of (safeParse insertCustomerSchema input))
      = [Message ''Invalid email address'']"
    by (simp add: customer_field_messages customer_email_schema)
  then have "safeParse insertCustomerSchema input
      = Failure (object_issues insertCustomerSchema input)"
    by (intro failure_of_field_message [where key = "''email''"]) simp
  with m show ?thesis by simp
qed

text \<open>C4, at the e-mail \<open>notanemail\<close>.\<close>

theorem C4_email_without_at_witness:
  "\<exists>issues. safeParse insertCustomerSchema (empty_object(''email'' := JString ''notanemail''))
               = Failure issues
           \<and> field_messages ''email'' issues = [Message ''Invalid email address'']"
  using C4_email_without_at [of "empty_object(''email'' := JString ''notanemail'')" "''notanemail''"]
  by simp

text \<open>
  C5. For a customer input with a zip code string and a phone string: the zip code field
  is accepted exactly when the string matches \<open>^\d{5}(-\d{4})?$\<close>, that is, when it is
  five digits, or five digits, a hyphen and four digits, and the zip code message is
  reported exactly when it does not match; the phone field is accepted exactly when the
  string matches \<open>^\d{3}-\d{3}-\d{4}$\<close>, that is, three digits, a hyphen, three digits,
  a hyphen and four digits, and otherwise its one message is the phone message. The zip
  codes \<open>12345\<close> and \<open>12345-6789\<close> match, \<open>1234\<close> and \<open>12345-678\<close> do not; the
  phone \<open>123-456-7890\<close> matches, \<open>1234567890\<close> and \<open>(123) 456-7890\<close> do not.
\<close>

theorem C5_zip_and_phone_patterns:
  assumes "input ''zipCode'' = JString z" and "input ''phone'' = JString p"
  shows
    "(field_messages ''zipCode'' (issues_of (safeParse insertCustomerSchema input)) = [])
        = regex_test zipCodeRegex z
     \<and> regex_test zipCodeRegex z = zip_shape z
     \<and> (Message ''Invalid zip code. Use 5 digits or 5 digits followed by a hyphen and 4 digits''
          \<in> set (field_messages ''zipCode'' (issues_of (safeParse insertCustomerSchema input))))
        = (\<not> regex_test zipCodeRegex z)
     \<and> field_messages ''phone'' (issues_of (safeParse insertCustomerSchema input))
        = (if regex_test phoneRegex p then []
           else [Message ''Invalid phone number. Use format: 123-456-7890''])
     \<and> regex_test phoneRegex p = phone_shape p
     \<and> regex_test zipCodeRegex ''12345'' \<and> regex_test zipCodeRegex ''12345-6789''
     \<and> \<not> regex_test zipCodeRegex ''1234'' \<and> \<not> regex_test zipCodeRegex ''12345-678''
     \<and> regex_test phoneRegex ''123-456-7890''
     \<and> \<not> regex_test phoneRegex ''1234567890'' \<and> \<not> regex_test phoneRegex ''(123) 456-7890''"
proof -
  have long: "10 < length z \<Longrightarrow> \<not> zip_shape z"
    by (auto simp: zip_shape_def)
  have zip: "(field_messages ''zipCode'' (issues_of (safeParse insertCustomerSchema input)) = [])
        = regex_test zipCodeRegex z"
    using assms(1) long
    by (auto simp: customer_field_messages customer_zipCode_schema zip_language)
  have zipmsg: "(Message ''Invalid zip code. Use 5 digits or 5 digits followed by a hyphen and 4 digits''
          \<in> set (field_messages ''zipCode'' (issues_of (safeParse insertCustomerSchema input))))
        = (\<not> regex_test zipCodeRegex z)"
    using assms(1)
    by (simp add: customer_field_messages customer_zipCode_schema)
  have phone: "field_messages ''phone'' (issues_of (safeParse insertCustomerSchema input))
        = (if regex_test phoneRegex p then []
           else [Message ''Invalid phone number. Use format: 123-456-7890''])"
    using assms(2)
    by (simp add: customer_field_messages customer_phone_schema)
  have ex1: "regex_test zipCodeRegex ''12345'' \<and> regex_test zipCodeRegex ''12345-6789''
     \<and> \<not> regex_test zipCodeRegex ''1234'' \<and> \<not> regex_test zipCodeRegex ''12345-678''"
    by (simp add: zip_language zip_shape_def digit_def)
  have ex2: "regex_test phoneRegex ''123-456-7890''
     \<and> \<not> regex_test phoneRegex ''1234567890'' \<and> \<not> regex_test phoneRegex ''(123) 456-7890''"
    by (simp add: phone_language phone_shape_def digit_def)
  from zip zipmsg phone ex1 ex2 show ?thesis
    by (simp only: zip_language phone_language) simp
qed

text \<open>C5, at the zip code \<open>12345-678\<close> and the phone \<open>123-456-7890\<close>.\<close>

theorem C5_zip_and_phone_patterns_witness:
  "field_messages ''zipCode'' (issues_of (safeParse insertCustomerSchema
       (empty_object(''zipCode'' := JString ''12345-678'', ''phone'' := JString ''123-456-7890''))))
     = [Message ''Invalid zip code. Use 5 digits or 5 digits followed by a hyphen and 4 digits'']
   \<and> field_messages ''phone'' (issues_of (safeParse insertCustomerSchema
       (empty_object(''zipCode'' := JString ''12345-678'', ''phone'' := JString ''123-456-7890''))))
     = []"
proof -
  let ?input = "empty_object(''zipCode'' := JString ''12345-678'', ''phone'' := JString ''123-456-7890'')"
  have z: "?input ''zipCode'' = JString ''12345-678''" and p: "?input ''phone'' = JString ''123-456-7890''"
    by simp_all
  note C5_zip_and_phone_patterns [OF z p]
  then have "field_messages ''phone'' (issues_of (safeParse insertCustomerSchema ?input)) = []"
    by presburger
  moreover have "field_messages ''zipCode'' (issues_of (safeParse insertCustomerSchema ?input))
     = [Message ''Invalid zip code. Use 5 digits or 5 digits followed by a hyphen and 4 digits'']"
    by (simp add: customer_field_messages customer_zipCode_schema zip_language zip_shape_def)
  ultimately show ?thesis by simp
qed

text \<open>
  C6. For every customer input with a state string, the state field is accepted exactly
  when the string has length 2, and the message \<open>State must be 2 characters\<close> is
  reported for the field exactly when the length differs from 2.
\<close>

theorem C6_state_length:
  assumes "input ''state'' = JString s"
  shows
    "(field_messages ''state'' (issues_of (safeParse insertCustomerSchema input)) = [])
        = (length s = 2)
     \<and> (Message ''State must be 2 characters''
          \<in> set (field_messages ''state'' (issues_of (safeParse insertCustomerSchema input))))
        = (length s \<noteq> 2)"
  using assms
  by (simp add: customer_field_messages customer_state_schema)

text \<open>C6, at the states \<open>CA\<close> and \<open>C\<close>.\<close>

theorem C6_state_length_witness:
  "field_messages ''state'' (issues_of (safeParse insertCustomerSchema
       (empty_object(''state'' := JString ''CA'')))) = []
   \<and> Message ''State must be 2 characters''
       \<in> set (field_messages ''state'' (issues_of (safeParse insertCustomerSchema
            (empty_object(''state'' := JString ''C'')))))"
  using C6_state_length [of "empty_object(''state'' := JString ''CA'')" "''CA''"]
    C6_state_length [of "empty_object(''state'' := JString ''C'')" "''C''"]
  by simp

text \<open>
  C8, as amended. The ticket insert validator accepts the id field exactly when it is a
  finite number (negative zero is one) or the string \<open>"(New)"\<close>, and also, under
  version 3 of the validation library only, when it is one of the two infinities. \<open>NaN\<close> and every other value, so
  every other string, is rejected under both versions.
\<close>

theorem C8_ticket_id_shapes:
  "(field_messages ''id'' (issues_of (safeParse (insertTicketSchema version) input)) = [])
     = ((\<exists>q. input ''id'' = JNumber (Finite q)) \<or> input ''id'' = JNumber NegZero
        \<or> (version = Zod3
            \<and> (input ''id'' = JNumber PosInfinity \<or> input ''id'' = JNumber NegInfinity))
        \<or> input ''id'' = JString ''(New)'')"
proof -
  have "(parse_value (ZUnion [z_number version, ZLiteral (JString ''(New)'')]) v = [])
      = ((\<exists>q. v = JNumber (Finite q)) \<or> v = JNumber NegZero
         \<or> (version = Zod3 \<and> (v = JNumber PosInfinity \<or> v = JNumber NegInfinity))
         \<or> v = JString ''(New)'')" for v
    by (auto simp: z_number_accepts)
  then show ?thesis
    by (simp add: ticket_field_messages ticket_id_schema)
qed

text \<open>
  C8 as first stated fails: \<open>NaN\<close> is a value of type number, and the validator
  rejects it as an id, under either version of the library.
\<close>

theorem C8_ticket_id_NaN_rejected:
  "field_messages ''id'' (issues_of (safeParse (insertTicketSchema Zod3)
       (empty_object(''id'' := JNumber NaN)))) = [LibraryMessage]
   \<and> field_messages ''id'' (issues_of (safeParse (insertTicketSchema Zod4)
       (empty_object(''id'' := JNumber NaN)))) = [LibraryMessage]"
  by (simp add: ticket_field_messages ticket_id_schema z_number_def)

text \<open>
  C9. When the ticket form is opened for a customer with no ticket, or with a ticket
  whose \<open>customerId\<close> is undefined, the default value of \<open>customerId\<close> is the id of
  that customer.
\<close>

theorem C9_ticket_customerId_default:
  assumes "ticket = None \<or> (\<exists>t. ticket = Some t \<and> t ''customerId'' = JUndefined)"
  shows "defaultValues customer ticket ''customerId'' = customer ''id''"
  using assms by (auto simp: defaultValues_simps)

text \<open>C9, for customer 3: with no ticket, and with a ticket that has only a title.\<close>

theorem C9_ticket_customerId_default_witness:
  "defaultValues (empty_object(''id'' := JNumber (Finite 3))) None ''customerId''
     = JNumber (Finite 3)
   \<and> defaultValues (empty_object(''id'' := JNumber (Finite 3)))
       (Some (empty_object(''title'' := JString ''Battery''))) ''customerId''
     = JNumber (Finite 3)"
  using C9_ticket_customerId_default [of None "empty_object(''id'' := JNumber (Finite 3))"]
    C9_ticket_customerId_default
      [of "Some (empty_object(''title'' := JString ''Battery''))"
          "empty_object(''id'' := JNumber (Finite 3))"]
  by (simp add: empty_object_def)

text \<open>
  C10. Whatever error the migration raises, the runner writes it to the error console
  and ends the process with exit code 1; when the migration succeeds the runner writes
  the success message and does not call \<open>process.exit\<close>, so the exit code is untouched.
\<close>

theorem C10_migrate_main:
  "main (Inl e) =
     \<lparr>console = [LogError ''Error applying migrations:'' e], exit_code = Some 1\<rparr>
   \<and> main (Inr ()) =
     \<lparr>console = [Log ''Migrations applied successfully.''], exit_code = None\<rparr>"
  by (simp add: main_def)

end
